theory Spec2Isabelle
  imports Complex_Main
begin

section \<open>Numbers\<close>

text \<open>
  JavaScript numbers are modelled as real numbers: arithmetic is exact, without the
  rounding of IEEE doubles and of the \<^verbatim>\<open>Float32Array\<close> that holds the particle
  positions. A division whose divisor can be zero in the source is modelled with
  \<open>js_div\<close>, whose result type has the three non-finite values of a JavaScript number.
\<close>

datatype jsnum = Num real | Infinity | NegInfinity | NaN

definition js_div :: "real \<Rightarrow> real \<Rightarrow> jsnum" where
  "js_div a b =
     (if b \<noteq> 0 then Num (a / b)
      else if 0 < a then Infinity
      else if a < 0 then NegInfinity
      else NaN)"

text \<open>A finite number divided by a number that may itself be non-finite.\<close>

fun js_div_by :: "real \<Rightarrow> jsnum \<Rightarrow> jsnum" where
  "js_div_by a (Num b) = js_div a b"
| "js_div_by a Infinity = Num 0"
| "js_div_by a NegInfinity = Num 0"
| "js_div_by a NaN = NaN"

text \<open>\<^verbatim>\<open>Math.max(0, v)\<close> and the comparison \<^verbatim>\<open>v > 0\<close> on such a number.\<close>

fun js_max0 :: "jsnum \<Rightarrow> jsnum" where
  "js_max0 (Num v) = Num (max 0 v)"
| "js_max0 Infinity = Infinity"
| "js_max0 NegInfinity = Num 0"
| "js_max0 NaN = NaN"

fun js_gt0 :: "jsnum \<Rightarrow> bool" where
  "js_gt0 (Num v) = (0 < v)"
| "js_gt0 Infinity = True"
| "js_gt0 NegInfinity = False"
| "js_gt0 NaN = False"

datatype error = TypeError

section \<open>Functions of the three.js library used by the scripts\<close>

text \<open>
  The library is outside the repository. \<^verbatim>\<open>MathUtils.lerp(x, y, t)\<close> is
  \<^verbatim>\<open>(1 - t) * x + t * y\<close>; \<^verbatim>\<open>Vector3.lerpVectors(v1, v2, alpha)\<close> sets every
  component to \<^verbatim>\<open>v1 + (v2 - v1) * alpha\<close>; \<^verbatim>\<open>lookAt\<close> turns an object towards a
  point, and the model records the point aimed at instead of the rotation.
\<close>

datatype Vector3 = Vector3 real real real

definition lerp :: "real \<Rightarrow> real \<Rightarrow> real \<Rightarrow> real" where
  "lerp x y t = (1 - t) * x + t * y"

fun lerpVectors :: "Vector3 \<Rightarrow> Vector3 \<Rightarrow> real \<Rightarrow> Vector3" where
  "lerpVectors (Vector3 x1 y1 z1) (Vector3 x2 y2 z2) alpha =
     Vector3 (x1 + (x2 - x1) * alpha) (y1 + (y2 - y1) * alpha) (z1 + (z2 - z1) * alpha)"

text \<open>
  The linear interpolation of two points in the words of the specification: each
  coordinate is \<open>lerp\<close> of the two coordinates.
\<close>

definition spec_lerp :: "Vector3 \<Rightarrow> Vector3 \<Rightarrow> real \<Rightarrow> Vector3" where
  "spec_lerp a b p =
     (case (a, b) of (Vector3 ax ay az, Vector3 bx by bz) \<Rightarrow>
        Vector3 (lerp ax bx p) (lerp ay by p) (lerp az bz p))"

record camera =
  position :: Vector3
  lookTarget :: Vector3

definition lookAt :: "real \<Rightarrow> real \<Rightarrow> real \<Rightarrow> camera \<Rightarrow> camera" where
  "lookAt x y z cam = cam\<lparr>lookTarget := Vector3 x y z\<rparr>"

section \<open>top-glb-loader.js\<close>

subsection \<open>Easing helpers and the scroll handler\<close>

definition clamp01 :: "real \<Rightarrow> real" where
  "clamp01 x = min 1 (max 0 x)"

definition smoothstep :: "real \<Rightarrow> real" where
  "smoothstep t0 = (let t = clamp01 t0 in t * t * (3 - 2 * t))"

text \<open>
  The handler installed by \<^verbatim>\<open>attachInternalScrollIfNeeded\<close>. Its inputs are
  \<^verbatim>\<open>doc.scrollTop\<close>, \<^verbatim>\<open>document.body.scrollTop\<close>, \<^verbatim>\<open>doc.scrollHeight\<close> and
  \<^verbatim>\<open>doc.clientHeight\<close>; \<^verbatim>\<open>a || b\<close> on numbers yields \<open>b\<close> when \<open>a\<close> is zero.
  The result is the new \<^verbatim>\<open>_scrollProgress\<close>.
\<close>

definition scrollTop_of :: "real \<Rightarrow> real \<Rightarrow> real" where
  "scrollTop_of doc_scrollTop body_scrollTop =
     (if doc_scrollTop \<noteq> 0 then doc_scrollTop
      else if body_scrollTop \<noteq> 0 then body_scrollTop else 0)"

definition scroll_max :: "real \<Rightarrow> real \<Rightarrow> real" where
  "scroll_max scrollHeight clientHeight = max 1 (scrollHeight - clientHeight)"

definition scroll_handler :: "real \<Rightarrow> real \<Rightarrow> real \<Rightarrow> real \<Rightarrow> real" where
  "scroll_handler doc_scrollTop body_scrollTop scrollHeight clientHeight =
     (let scrollTop = scrollTop_of doc_scrollTop body_scrollTop;
          mx = scroll_max scrollHeight clientHeight
      in clamp01 (scrollTop / mx))"

subsection \<open>The overlay fade: \<^verbatim>\<open>setOpacity\<close> and \<^verbatim>\<open>updateTopGLB\<close>\<close>

record material =
  transparent :: bool
  mat_opacity :: real
  needsUpdate :: bool

text \<open>
  A node of the loaded object. A single material is a list of one; a node without a
  material has the empty list.
\<close>

record glbNode =
  isMesh :: bool
  isPoints :: bool
  materials :: "material list"

definition setOpacity :: "real \<Rightarrow> glbNode list \<Rightarrow> glbNode list" where
  "setOpacity opacity obj =
     map (\<lambda>n. if (isMesh n \<or> isPoints n) \<and> materials n \<noteq> []
               then n\<lparr>materials :=
                      map (\<lambda>m. m\<lparr>transparent := True, mat_opacity := opacity,
                                  needsUpdate := True\<rparr>) (materials n)\<rparr>
               else n) obj"

text \<open>The module state \<^verbatim>\<open>_topGLB\<close>; the mixer is represented by its clock time.\<close>

record topGLB =
  object :: "glbNode list option"
  mixer :: "real option"
  ready :: bool
  opacity :: real

text \<open>The options of \<^verbatim>\<open>updateTopGLB\<close>; an absent option takes its default.\<close>

record updateOptions =
  opt_showAt :: "real option"
  opt_fullAt :: "real option"
  opt_lerpSpeed :: "real option"

definition showAt_of :: "updateOptions \<Rightarrow> real" where
  "showAt_of options = (case opt_showAt options of None \<Rightarrow> 0.01 | Some v \<Rightarrow> v)"

definition fullAt_of :: "updateOptions \<Rightarrow> real" where
  "fullAt_of options = (case opt_fullAt options of None \<Rightarrow> 0.12 | Some v \<Rightarrow> v)"

definition lerpSpeed_of :: "updateOptions \<Rightarrow> real" where
  "lerpSpeed_of options = (case opt_lerpSpeed options of None \<Rightarrow> 8 | Some v \<Rightarrow> v)"

text \<open>
  \<open>targetOpacity\<close> is the value of the source's constant of that name, from the
  options and the value returned by \<^verbatim>\<open>_getScrollProgress()\<close>.
\<close>

definition targetOpacity :: "updateOptions \<Rightarrow> real \<Rightarrow> real" where
  "targetOpacity options got =
     (let showAt = showAt_of options; fullAt = fullAt_of options;
          sp = clamp01 got;
          t = (if sp \<le> showAt then 0
               else if sp \<ge> fullAt then 1
               else (sp - showAt) / max (1 / 1000000) (fullAt - showAt));
          eased = smoothstep t
      in eased)"

definition updateTopGLB :: "updateOptions \<Rightarrow> real \<Rightarrow> real \<Rightarrow> topGLB \<Rightarrow> topGLB" where
  "updateTopGLB options delta got st =
     (if \<not> ready st \<or> object st = None then st
      else
        let opacity' = opacity st
               + (targetOpacity options got - opacity st) * min 1 (delta * lerpSpeed_of options)
        in st\<lparr>opacity := opacity',
               object := map_option (setOpacity opacity') (object st),
               mixer := map_option (\<lambda>time. time + delta) (mixer st)\<rparr>)"

subsection \<open>The header canvas layout\<close>

record domRect =
  rect_left :: real
  rect_top :: real
  rect_width :: real
  rect_height :: real

text \<open>The style of the overlay canvas; lengths are in pixels.\<close>

record canvasStyle =
  display :: string
  style_left :: real
  style_top :: real
  style_width :: real
  style_height :: real

record orthoCamera =
  cam_left :: real
  cam_right :: real
  cam_top :: real
  cam_bottom :: real

text \<open>
  The module state \<^verbatim>\<open>_headerCanvas\<close>. The renderer, canvas, camera and pivot are
  created by \<^verbatim>\<open>_initHeaderCanvas\<close> before \<open>enabled\<close> is ever set.
\<close>

record headerCanvas =
  enabled :: bool
  headerEl :: bool
  fit :: string
  fitAmount :: real
  offsetX :: real
  offsetY :: real
  needsLayout :: bool
  canvas :: canvasStyle
  renderer_size :: "real \<times> real"
  hcamera :: orthoCamera
  pivot_position :: Vector3
  pivot_scale :: jsnum

text \<open>
  The scale \<open>s\<close> of \<^verbatim>\<open>updateTopGLBHeaderCanvasLayout\<close>; the last argument is the
  source's \<^verbatim>\<open>size\<close>, the size of the bounding box of the object, computed by the
  library.
\<close>

fun layout_scale :: "string \<Rightarrow> real \<Rightarrow> domRect \<Rightarrow> Vector3 \<Rightarrow> jsnum" where
  "layout_scale fit' fitAmount' rect (Vector3 size_x size_y size_z) =
     (if fit' = ''height'' \<and> size_y > 0 then js_div (rect_height rect * fitAmount') size_y
      else if fit' = ''width'' \<and> size_x > 0 then js_div (rect_width rect * fitAmount') size_x
      else Num 1)"

definition updateTopGLBHeaderCanvasLayout ::
    "domRect \<Rightarrow> Vector3 \<Rightarrow> topGLB \<Rightarrow> headerCanvas \<Rightarrow> headerCanvas" where
  "updateTopGLBHeaderCanvasLayout rect bsize glb hc =
     (if \<not> enabled hc \<or> \<not> headerEl hc \<or> object glb = None then hc
      else
        let visible' = (rect_width rect > 0 \<and> rect_height rect > 0);
            hc1 = hc\<lparr>canvas := (canvas hc)\<lparr>display := (if visible' then ''block'' else ''none'')\<rparr>\<rparr>
        in if \<not> visible' then hc1
           else hc1\<lparr>canvas := (canvas hc1)\<lparr>style_left := rect_left rect,
                                             style_top := rect_top rect,
                                             style_width := rect_width rect,
                                             style_height := rect_height rect\<rparr>,
                    renderer_size := (rect_width rect, rect_height rect),
                    hcamera := \<lparr>cam_left = - rect_width rect / 2,
                                cam_right = rect_width rect / 2,
                                cam_top = rect_height rect / 2,
                                cam_bottom = - rect_height rect / 2\<rparr>,
                    pivot_position := Vector3 (offsetX hc) (offsetY hc) 0,
                    pivot_scale := layout_scale (fit hc) (fitAmount hc) rect bsize,
                    needsLayout := False\<rparr>)"

section \<open>The main scene script\<close>

subsection \<open>Scroll listener\<close>

text \<open>
  \<^verbatim>\<open>const h = document.documentElement.scrollHeight - window.innerHeight;\<close>
  \<^verbatim>\<open>if (h > 0) { scrollProgress = window.scrollY / h; }\<close>
  The last argument is the value of \<^verbatim>\<open>scrollProgress\<close> before the event.
\<close>

definition scroll_listener :: "real \<Rightarrow> real \<Rightarrow> real \<Rightarrow> real \<Rightarrow> real" where
  "scroll_listener scrollHeight innerHeight scrollY scrollProgress =
     (let h = scrollHeight - innerHeight
      in if h > 0 then scrollY / h else scrollProgress)"

subsection \<open>The animation loop: camera, crystal, particles\<close>

definition particleCount :: nat where
  "particleCount = 1500"

definition camState1 :: Vector3 where "camState1 = Vector3 0 0 15"
definition camState2 :: Vector3 where "camState2 = Vector3 14 (-3) 8"
definition camState3 :: Vector3 where "camState3 = Vector3 0 0 18"

text \<open>The three formations are filled with random numbers at start-up.\<close>

record formations =
  formation1 :: "real list"
  formation2 :: "real list"
  formation3 :: "real list"

definition animProgress :: "real \<Rightarrow> real" where
  "animProgress scrollProgress = min (scrollProgress / 0.2) 1.0"

definition pInterp :: "real \<Rightarrow> real" where
  "pInterp scrollProgress =
     (if scrollProgress < 0.5 then scrollProgress * 2 else (scrollProgress - 0.5) * 2)"

definition camSrc :: "real \<Rightarrow> Vector3" where
  "camSrc scrollProgress = (if scrollProgress < 0.5 then camState1 else camState2)"

definition camDst :: "real \<Rightarrow> Vector3" where
  "camDst scrollProgress = (if scrollProgress < 0.5 then camState2 else camState3)"

definition pSrc :: "formations \<Rightarrow> real \<Rightarrow> real list" where
  "pSrc F scrollProgress = (if scrollProgress < 0.5 then formation1 F else formation2 F)"

definition pDst :: "formations \<Rightarrow> real \<Rightarrow> real list" where
  "pDst F scrollProgress = (if scrollProgress < 0.5 then formation2 F else formation3 F)"

text \<open>
  \<^verbatim>\<open>camera.position.lerpVectors(camSrc, camDst, pInterp); camera.lookAt(0,0,0);\<close>
\<close>

definition animate_camera :: "real \<Rightarrow> camera \<Rightarrow> camera" where
  "animate_camera scrollProgress cam =
     lookAt 0 0 0
       (cam\<lparr>position :=
              lerpVectors (camSrc scrollProgress) (camDst scrollProgress)
                (pInterp scrollProgress)\<rparr>)"

text \<open>The crystal: its nodes with the opacity of their material, and its own fields.\<close>

record crystalNode =
  node_isMesh :: bool
  node_opacity :: real

record crystal =
  nodes :: "crystalNode list"
  visible :: bool
  rotation_y :: real

text \<open>The block guarded by \<^verbatim>\<open>if (worldCrystal)\<close>; \<open>None\<close> is the crystal not yet loaded.\<close>

definition animate_crystal :: "real \<Rightarrow> real \<Rightarrow> crystal option \<Rightarrow> crystal option" where
  "animate_crystal scrollProgress elapsedTime worldCrystal =
     (case worldCrystal of
        None \<Rightarrow> None
      | Some c \<Rightarrow>
          Some (c\<lparr>nodes := map (\<lambda>n. if node_isMesh n
                                     then n\<lparr>node_opacity := 1 - animProgress scrollProgress\<rparr>
                                     else n) (nodes c),
                  visible := (animProgress scrollProgress < 1.0),
                  rotation_y := 0.3 * elapsedTime\<rparr>))"

text \<open>
  One round of the easing loop, for particle \<open>i\<close>: the three coordinates at \<open>i3\<close>,
  \<open>i3 + 1\<close>, \<open>i3 + 2\<close> move towards the blended target by the factor 0.07. All arrays
  of the script have \<open>particleCount * 3\<close> entries, so every index is in range.
\<close>

definition ease_particle :: "real list \<Rightarrow> real list \<Rightarrow> real \<Rightarrow> nat \<Rightarrow> real list \<Rightarrow> real list" where
  "ease_particle src dst p i arr =
     (let i3 = i * 3;
          tX = lerp (src ! i3) (dst ! i3) p;
          tY = lerp (src ! (i3 + 1)) (dst ! (i3 + 1)) p;
          tZ = lerp (src ! (i3 + 2)) (dst ! (i3 + 2)) p;
          arr1 = arr[i3 := lerp (arr ! i3) tX 0.07];
          arr2 = arr1[i3 + 1 := lerp (arr1 ! (i3 + 1)) tY 0.07]
      in arr2[i3 + 2 := lerp (arr2 ! (i3 + 2)) tZ 0.07])"

text \<open>\<^verbatim>\<open>for (let i = 0; i < n; i++)\<close> over the position array.\<close>

definition ease_particles :: "nat \<Rightarrow> real list \<Rightarrow> real list \<Rightarrow> real \<Rightarrow> real list \<Rightarrow> real list" where
  "ease_particles n src dst p arr = fold (ease_particle src dst p) [0..<n] arr"

definition animate_particles :: "formations \<Rightarrow> real \<Rightarrow> real list \<Rightarrow> real list" where
  "animate_particles F scrollProgress arr =
     ease_particles particleCount (pSrc F scrollProgress) (pDst F scrollProgress)
       (pInterp scrollProgress) arr"

subsection \<open>The overlay module written inside the main script\<close>

text \<open>
  The main script carries its own copy of the overlay functions, under the same names
  as those of top-glb-loader.js; the copies have the suffix \<open>_main\<close> here.
\<close>

record topModel =
  model_scale :: jsnum
  model_visible :: bool
  model_rotation_y :: real

record perspCamera =
  fov :: real
  aspect :: jsnum
  position_z :: real

text \<open>
  The state \<^verbatim>\<open>topGLBState\<close>. The canvas element is created together with the
  renderer; of its style the model keeps \<open>display\<close> and \<open>opacity\<close> (\<open>None\<close> while
  never assigned).
\<close>

record topGLBState =
  model :: "topModel option"
  tcamera :: "perspCamera option"
  renderer :: "(real \<times> real) option"
  theaderEl :: bool
  canvas_display :: string
  canvas_opacity :: "jsnum option"
  config_fit :: string
  config_fitAmount :: real
  headerSpin :: real

text \<open>
  \<^verbatim>\<open>const opacity = Math.max(0, (scroll - showAt) / (fullAt - showAt));\<close>
  (The constant \<^verbatim>\<open>progress = Math.min(scroll / fullAt, 1.0)\<close> of the source is
  computed and never read.)
\<close>

definition overlay_opacity_main :: "real \<Rightarrow> real \<Rightarrow> real \<Rightarrow> jsnum" where
  "overlay_opacity_main showAt fullAt scroll =
     js_max0 (js_div (scroll - showAt) (fullAt - showAt))"

text \<open>\<open>scroll\<close> is the value of the scroll getter, \<open>now\<close> that of \<^verbatim>\<open>performance.now()\<close>.\<close>

definition updateTopGLB_main :: "real \<Rightarrow> real \<Rightarrow> real \<Rightarrow> real \<Rightarrow> topGLBState \<Rightarrow> topGLBState" where
  "updateTopGLB_main showAt fullAt scroll now st =
     (case model st of
        None \<Rightarrow> st
      | Some m \<Rightarrow>
          let opacity' = overlay_opacity_main showAt fullAt scroll;
              m1 = m\<lparr>model_visible := js_gt0 opacity'\<rparr>;
              m2 = (if model_visible m1
                    then m1\<lparr>model_rotation_y := headerSpin st * now / 1000\<rparr> else m1);
              st1 = st\<lparr>model := Some m2\<rparr>
          in if renderer st1 \<noteq> None then st1\<lparr>canvas_opacity := Some opacity'\<rparr> else st1)"

text \<open>
  The layout of the copy: no test of the rectangle. Reading a field of the camera or of
  the model while it is \<^verbatim>\<open>null\<close> raises a \<^verbatim>\<open>TypeError\<close>.
\<close>

definition updateTopGLBHeaderCanvasLayout_main ::
    "domRect \<Rightarrow> topGLBState \<Rightarrow> error + topGLBState" where
  "updateTopGLBHeaderCanvasLayout_main rect st =
     (if renderer st = None \<or> \<not> theaderEl st then Inr st
      else
        case tcamera st of
          None \<Rightarrow> Inl TypeError
        | Some cam \<Rightarrow>
            let cam1 = cam\<lparr>aspect := js_div (rect_width rect) (rect_height rect)\<rparr>;
                st1 = st\<lparr>renderer := Some (rect_width rect, rect_height rect),
                         tcamera := Some cam1\<rparr>;
                reqScale =
                  (if config_fit st1 = ''height''
                   then let fov' = fov cam1 * (pi / 180);
                            h = 2 * tan (fov' / 2) * position_z cam1
                        in js_div (rect_height rect * config_fitAmount st1) h
                   else js_div_by (rect_width rect * config_fitAmount st1) (aspect cam1))
            in (case model st1 of
                  None \<Rightarrow> Inl TypeError
                | Some m \<Rightarrow> Inr (st1\<lparr>model := Some (m\<lparr>model_scale := reqScale\<rparr>)\<rparr>)))"

section \<open>Properties\<close>

lemma clamp01_id: "0 \<le> x \<Longrightarrow> x \<le> 1 \<Longrightarrow> clamp01 x = x"
  by (simp add: clamp01_def)

lemma clamp01_range: "0 \<le> clamp01 x \<and> clamp01 x \<le> 1"
  by (simp add: clamp01_def)





text \<open>
  Claim C4. For every scroll fraction \<open>s\<close> between 0 and 1 the blend parameter lies
  between 0 and 1, and as a function of \<open>s\<close> it is continuous on the segment from 0
  (included) to 0.5 (excluded) and on the segment from 0.5 to 1 (both included).
\<close>

theorem pInterp_range_continuous:
  "(\<forall>s. 0 \<le> s \<and> s \<le> 1 \<longrightarrow> 0 \<le> pInterp s \<and> pInterp s \<le> 1)
   \<and> continuous_on {0..<0.5} pInterp \<and> continuous_on {0.5..1} pInterp"
proof -
  have "continuous_on {0..<0.5} (\<lambda>s::real. s * 2)"
    by (intro continuous_intros)
  moreover have "continuous_on {0..<0.5} pInterp = continuous_on {0..<0.5} (\<lambda>s::real. s * 2)"
    by (rule continuous_on_cong) (simp_all add: pInterp_def)
  ultimately have lo: "continuous_on {0..<0.5} pInterp"
    by simp
  have "continuous_on {0.5..1} (\<lambda>s::real. (s - 0.5) * 2)"
    by (intro continuous_intros)
  moreover have "continuous_on {0.5..1} pInterp
      = continuous_on {0.5..1} (\<lambda>s::real. (s - 0.5) * 2)"
    by (rule continuous_on_cong) (simp_all add: pInterp_def)
  ultimately have hi: "continuous_on {0.5..1} pInterp"
    by simp
  have "\<forall>s. 0 \<le> s \<and> s \<le> 1 \<longrightarrow> 0 \<le> pInterp s \<and> pInterp s \<le> 1"
    by (simp add: pInterp_def)
  with lo hi show ?thesis by simp
qed

theorem pInterp_range_continuous_witness:
  "(0::real) \<le> 0.75 \<and> (0.75::real) \<le> 1 \<and> pInterp 0.75 = 0.5
   \<and> 0 \<le> pInterp 0.75 \<and> pInterp 0.75 \<le> 1"
proof -
  have h: "(0::real) \<le> 0.75 \<and> (0.75::real) \<le> 1" by simp
  have "0 \<le> pInterp 0.75 \<and> pInterp 0.75 \<le> 1"
    using pInterp_range_continuous h by blast
  moreover have "pInterp 0.75 = 0.5" by (simp add: pInterp_def)
  ultimately show ?thesis using h by simp
qed

lemma lerpVectors_spec_lerp: "lerpVectors a b p = spec_lerp a b p"
  by (cases a; cases b) (simp add: spec_lerp_def lerp_def algebra_simps)

text \<open>
  Claim C1. For every scroll fraction \<open>s\<close>: below 0.5 the blend parameter is
  \<open>s * 2\<close>, the source is the first waypoint and formation and the destination the
  second; otherwise the parameter is \<open>(s - 0.5) * 2\<close>, the source is the second and the
  destination the third. The camera is placed at the interpolation of the source and
  destination waypoints at that parameter, and then looks at the origin.
\<close>

theorem animate_two_stage_blend:
  "(s < 0.5 \<longrightarrow>
      pInterp s = s * 2 \<and> camSrc s = camState1 \<and> camDst s = camState2
      \<and> pSrc F s = formation1 F \<and> pDst F s = formation2 F
      \<and> position (animate_camera s cam) = spec_lerp camState1 camState2 (s * 2))
   \<and> (\<not> s < 0.5 \<longrightarrow>
      pInterp s = (s - 0.5) * 2 \<and> camSrc s = camState2 \<and> camDst s = camState3
      \<and> pSrc F s = formation2 F \<and> pDst F s = formation3 F
      \<and> position (animate_camera s cam) = spec_lerp camState2 camState3 ((s - 0.5) * 2))
   \<and> position (animate_camera s cam) = lerpVectors (camSrc s) (camDst s) (pInterp s)
   \<and> lookTarget (animate_camera s cam) = Vector3 0 0 0"
  by (simp add: pInterp_def camSrc_def camDst_def pSrc_def pDst_def animate_camera_def
      lookAt_def lerpVectors_spec_lerp)

theorem animate_two_stage_blend_witness:
  "(0.25::real) < 0.5
   \<and> position (animate_camera 0.25 \<lparr>position = Vector3 0 0 12, lookTarget = Vector3 0 0 0\<rparr>)
       = Vector3 7 (-1.5) 11.5
   \<and> \<not> (0.75::real) < 0.5
   \<and> position (animate_camera 0.75 \<lparr>position = Vector3 0 0 12, lookTarget = Vector3 0 0 0\<rparr>)
       = Vector3 7 (-1.5) 13"
proof -
  let ?F = "\<lparr>formation1 = [0, 0, 0], formation2 = [1, 1, 1], formation3 = [2, 2, 2]\<rparr>"
  let ?cam = "\<lparr>position = Vector3 0 0 12, lookTarget = Vector3 0 0 0\<rparr>"
  show ?thesis
    using animate_two_stage_blend [where s = "0.25" and F = ?F and cam = ?cam]
      animate_two_stage_blend [where s = "0.75" and F = ?F and cam = ?cam]
    by (simp add: spec_lerp_def lerp_def camState1_def camState2_def camState3_def)
qed

text \<open>
  Claim C2. Once the crystal is loaded, a frame sets the opacity of the material of
  each of its meshes to \<open>1 - min (s / 0.2) 1\<close>, and its visibility flag holds exactly
  when that opacity is positive, that is, exactly when \<open>s / 0.2 < 1\<close>.
\<close>

theorem crystal_fade:
  "animate_crystal s t (Some c) = Some c' \<Longrightarrow>
     (\<forall>n \<in> set (nodes c'). node_isMesh n \<longrightarrow> node_opacity n = 1 - min (s / 0.2) 1)
     \<and> (visible c' \<longleftrightarrow> 0 < 1 - min (s / 0.2) 1)
     \<and> (visible c' \<longleftrightarrow> s / 0.2 < 1)"
  by (auto simp: animate_crystal_def animProgress_def)

theorem crystal_fade_witness:
  "animate_crystal 0.1 2
      (Some \<lparr>nodes = [\<lparr>node_isMesh = True, node_opacity = 1\<rparr>,
                       \<lparr>node_isMesh = False, node_opacity = 0.3\<rparr>],
             visible = False, rotation_y = 0\<rparr>)
    = Some \<lparr>nodes = [\<lparr>node_isMesh = True, node_opacity = 0.5\<rparr>,
                      \<lparr>node_isMesh = False, node_opacity = 0.3\<rparr>],
            visible = True, rotation_y = 0.6\<rparr>
   \<and> node_isMesh \<lparr>node_isMesh = True, node_opacity = 0.5\<rparr>
   \<and> node_opacity \<lparr>node_isMesh = True, node_opacity = 0.5\<rparr> = 1 - min (0.1 / 0.2) 1
   \<and> (0::real) < 1 - min (0.1 / 0.2) 1"
proof -
  let ?c = "\<lparr>nodes = [\<lparr>node_isMesh = True, node_opacity = 1\<rparr>,
                       \<lparr>node_isMesh = False, node_opacity = 0.3\<rparr>],
             visible = False, rotation_y = 0\<rparr>"
  let ?c' = "\<lparr>nodes = [\<lparr>node_isMesh = True, node_opacity = 0.5\<rparr>,
                      \<lparr>node_isMesh = False, node_opacity = 0.3\<rparr>],
            visible = True, rotation_y = 0.6\<rparr>"
  have run: "animate_crystal 0.1 2 (Some ?c) = Some ?c'"
    by (simp add: animate_crystal_def animProgress_def)
  from crystal_fade [OF run] run show ?thesis by simp
qed

text \<open>
  Claim C8. At scroll fraction 0 the camera is exactly at the first waypoint, the
  crystal has opacity 1 and is visible, and the overlay's target opacity is 0: in
  top-glb-loader.js (with the options of the call in the main script and with the
  defaults), where an opacity of 0 then stays 0, and in the copy of the main script.
\<close>

theorem scroll_zero_scenario:
  "position (animate_camera 0 cam) = camState1
   \<and> animate_crystal 0 t (Some c)
       = Some (c\<lparr>nodes := map (\<lambda>n. if node_isMesh n then n\<lparr>node_opacity := 1\<rparr> else n) (nodes c),
                 visible := True, rotation_y := 0.3 * t\<rparr>)
   \<and> targetOpacity \<lparr>opt_showAt = Some 0.01, opt_fullAt = Some 0.12, opt_lerpSpeed = None\<rparr> 0 = 0
   \<and> targetOpacity \<lparr>opt_showAt = None, opt_fullAt = None, opt_lerpSpeed = None\<rparr> 0 = 0
   \<and> opacity (updateTopGLB \<lparr>opt_showAt = Some 0.01, opt_fullAt = Some 0.12, opt_lerpSpeed = None\<rparr>
                delta 0 (st\<lparr>opacity := 0\<rparr>)) = 0
   \<and> overlay_opacity_main 0.01 0.12 0 = Num 0"
  apply (intro conjI)
  subgoal
    by (simp add: animate_camera_def lookAt_def camSrc_def camDst_def pInterp_def
        camState1_def camState2_def)
  subgoal
    by (simp add: animate_crystal_def animProgress_def)
  subgoal
    by (simp add: targetOpacity_def showAt_of_def fullAt_of_def clamp01_def smoothstep_def)
  subgoal
    by (simp add: targetOpacity_def showAt_of_def fullAt_of_def clamp01_def smoothstep_def)
  subgoal
    by (simp add: updateTopGLB_def targetOpacity_def showAt_of_def fullAt_of_def clamp01_def
        smoothstep_def Let_def)
  subgoal
    by (simp add: overlay_opacity_main_def js_div_def)
  done

theorem scroll_zero_scenario_witness:
  "position (animate_camera 0 \<lparr>position = Vector3 0 0 12, lookTarget = Vector3 0 0 0\<rparr>)
     = Vector3 0 0 15
   \<and> animate_crystal 0 2
        (Some \<lparr>nodes = [\<lparr>node_isMesh = True, node_opacity = 0.4\<rparr>],
               visible = False, rotation_y = 0\<rparr>)
       = Some \<lparr>nodes = [\<lparr>node_isMesh = True, node_opacity = 1\<rparr>],
               visible = True, rotation_y = 0.6\<rparr>
   \<and> opacity (updateTopGLB \<lparr>opt_showAt = Some 0.01, opt_fullAt = Some 0.12, opt_lerpSpeed = None\<rparr>
                0.016 0 \<lparr>object = Some [], mixer = None, ready = True, opacity = 0\<rparr>) = 0"
  using scroll_zero_scenario [of "\<lparr>position = Vector3 0 0 12, lookTarget = Vector3 0 0 0\<rparr>" 2
      "\<lparr>nodes = [\<lparr>node_isMesh = True, node_opacity = 0.4\<rparr>], visible = False, rotation_y = 0\<rparr>"
      "0.016" "\<lparr>object = Some [], mixer = None, ready = True, opacity = 0\<rparr>"]
  by (simp add: camState1_def)

text \<open>
  Claim C10. In the layout of top-glb-loader.js the scale is the rectangle's height (or
  width) times the fit amount, divided by the bounding-box size along that axis, only
  when that size is positive, and 1 otherwise; it is always a finite number (no
  division by zero), it is positive when the fit amount is positive and the rectangle
  is visible, and it is the scale given to the pivot.
\<close>

theorem layout_scale_guarded:
  "layout_scale f fa rect (Vector3 sx sy sz)
     = (if f = ''height'' \<and> 0 < sy then Num (rect_height rect * fa / sy)
        else if f = ''width'' \<and> 0 < sx then Num (rect_width rect * fa / sx)
        else Num 1)
   \<and> (\<exists>r. layout_scale f fa rect (Vector3 sx sy sz) = Num r
         \<and> (0 < fa \<and> 0 < rect_width rect \<and> 0 < rect_height rect \<longrightarrow> 0 < r))
   \<and> (enabled hc \<and> headerEl hc \<and> object glb \<noteq> None
        \<and> 0 < rect_width rect \<and> 0 < rect_height rect \<longrightarrow>
       pivot_scale (updateTopGLBHeaderCanvasLayout rect (Vector3 sx sy sz) glb hc)
         = layout_scale (fit hc) (fitAmount hc) rect (Vector3 sx sy sz))"
  by (auto simp: js_div_def updateTopGLBHeaderCanvasLayout_def Let_def)

theorem layout_scale_guarded_witness:
  "(0::real) < 0.9
   \<and> 0 < rect_width \<lparr>rect_left = 10, rect_top = 0, rect_width = 200, rect_height = 100\<rparr>
   \<and> 0 < rect_height \<lparr>rect_left = 10, rect_top = 0, rect_width = 200, rect_height = 100\<rparr>
   \<and> layout_scale ''height'' 0.9
        \<lparr>rect_left = 10, rect_top = 0, rect_width = 200, rect_height = 100\<rparr> (Vector3 2 3 1)
       = Num 30
   \<and> layout_scale ''height'' 0.9
        \<lparr>rect_left = 10, rect_top = 0, rect_width = 200, rect_height = 100\<rparr> (Vector3 2 0 1)
       = Num 1
   \<and> pivot_scale
        (updateTopGLBHeaderCanvasLayout
           \<lparr>rect_left = 10, rect_top = 0, rect_width = 200, rect_height = 100\<rparr> (Vector3 2 3 1)
           \<lparr>object = Some [], mixer = None, ready = True, opacity = 0\<rparr>
           \<lparr>enabled = True, headerEl = True, fit = ''height'', fitAmount = 0.9,
            offsetX = 0, offsetY = 0, needsLayout = True,
            canvas = \<lparr>display = ''none'', style_left = 0, style_top = 0,
                      style_width = 0, style_height = 0\<rparr>,
            renderer_size = (0, 0),
            hcamera = \<lparr>cam_left = - 1, cam_right = 1, cam_top = 1, cam_bottom = - 1\<rparr>,
            pivot_position = Vector3 0 0 0, pivot_scale = Num 1\<rparr>)
       = Num 30"
proof -
  let ?rect = "\<lparr>rect_left = 10, rect_top = 0, rect_width = 200, rect_height = 100\<rparr>"
  let ?glb = "\<lparr>object = Some [], mixer = None, ready = True, opacity = 0\<rparr>"
  let ?hc = "\<lparr>enabled = True, headerEl = True, fit = ''height'', fitAmount = 0.9,
            offsetX = 0, offsetY = 0, needsLayout = True,
            canvas = \<lparr>display = ''none'', style_left = 0, style_top = 0,
                      style_width = 0, style_height = 0\<rparr>,
            renderer_size = (0, 0),
            hcamera = \<lparr>cam_left = - 1, cam_right = 1, cam_top = 1, cam_bottom = - 1\<rparr>,
            pivot_position = Vector3 0 0 0, pivot_scale = Num 1\<rparr>"
  show ?thesis
    using layout_scale_guarded [where f = "''height''" and fa = "0.9" and rect = ?rect
        and sx = 2 and sy = 3 and sz = 1 and hc = ?hc and glb = ?glb]
      layout_scale_guarded [where f = "''height''" and fa = "0.9" and rect = ?rect
        and sx = 2 and sy = 0 and sz = 1 and hc = ?hc and glb = ?glb]
    by simp
qed

lemma length_ease_particle: "length (ease_particle src dst p i arr) = length arr"
  by (simp add: ease_particle_def Let_def)

lemma ease_particle_nth:
  assumes "j < length arr"
  shows "ease_particle src dst p i arr ! j
           = (if j div 3 = i then lerp (arr ! j) (lerp (src ! j) (dst ! j) p) 0.07 else arr ! j)"
proof (cases "j div 3 = i")
  case True
  then consider "j = i * 3" | "j = i * 3 + 1" | "j = i * 3 + 2" by arith
  then show ?thesis using assms True
    by cases (simp_all add: ease_particle_def Let_def nth_list_update)
next
  case False
  then have "j \<noteq> i * 3" "j \<noteq> i * 3 + 1" "j \<noteq> i * 3 + 2" by arith+
  then show ?thesis using False
    by (simp add: ease_particle_def Let_def)
qed

lemma length_ease_particles: "length (ease_particles n src dst p arr) = length arr"
  by (induction n) (simp_all add: ease_particles_def length_ease_particle)

lemma ease_particles_nth:
  "j < length arr \<Longrightarrow>
   ease_particles n src dst p arr ! j
     = (if j div 3 < n then lerp (arr ! j) (lerp (src ! j) (dst ! j) p) 0.07 else arr ! j)"
proof (induction n)
  case 0
  then show ?case by (simp add: ease_particles_def)
next
  case (Suc n)
  have step: "ease_particles (Suc n) src dst p arr
      = ease_particle src dst p n (ease_particles n src dst p arr)"
    by (simp add: ease_particles_def)
  have len: "j < length (ease_particles n src dst p arr)"
    using Suc.prems by (simp add: length_ease_particles)
  show ?case
    unfolding step ease_particle_nth [OF len] using Suc by auto
qed

lemma lerp_same: "lerp x x k = x"
  by (simp add: lerp_def algebra_simps)

lemma animate_particles_nth:
  "j < length arr \<Longrightarrow> j < particleCount * 3 \<Longrightarrow>
   animate_particles F s arr ! j
     = lerp (arr ! j) (lerp (pSrc F s ! j) (pDst F s ! j) (pInterp s)) 0.07"
proof -
  assume "j < length arr" and "j < particleCount * 3"
  moreover from this have "j div 3 < particleCount" by simp
  ultimately show ?thesis
    by (simp add: animate_particles_def ease_particles_nth)
qed

text \<open>
  Claim C7. The easing step is idempotent at its fixed point: an entry of the position
  array that already equals its target \<open>lerp (src ! j) (dst ! j) p\<close> is left unchanged
  by the easing loop.
\<close>

theorem easing_fixed_point:
  assumes "length arr = n * 3" and "j < n * 3"
    and "arr ! j = lerp (src ! j) (dst ! j) p"
  shows "ease_particles n src dst p arr ! j = arr ! j"
proof -
  have "j < length arr" and "j div 3 < n" using assms by simp_all
  then have "ease_particles n src dst p arr ! j
      = lerp (arr ! j) (lerp (src ! j) (dst ! j) p) 0.07"
    by (simp add: ease_particles_nth)
  also have "\<dots> = arr ! j"
    using assms(3) by (simp add: lerp_same)
  finally show ?thesis .
qed

theorem easing_fixed_point_witness:
  "length [1, 2, 3 :: real] = 1 * 3 \<and> (1::nat) < 1 * 3
   \<and> [1, 2, 3 :: real] ! 1 = lerp ([1, 0, 0] ! 1) ([1, 4, 4] ! 1) 0.5
   \<and> ease_particles 1 [1, 0, 0] [1, 4, 4] 0.5 [1, 2, 3] ! 1 = 2
   \<and> ease_particles 1 [1, 0, 0] [1, 4, 4] 0.5 [1, 2, 3] = [1, 2, 2.93]"
proof -
  have a: "length [1, 2, 3 :: real] = 1 * 3" by simp
  have b: "(1::nat) < 1 * 3" by simp
  have c: "[1, 2, 3 :: real] ! 1 = lerp ([1, 0, 0] ! 1) ([1, 4, 4] ! 1) 0.5"
    by (simp add: lerp_def)
  have "ease_particles 1 [1, 0, 0] [1, 4, 4] 0.5 [1, 2, 3] ! 1 = [1, 2, 3 :: real] ! 1"
    by (rule easing_fixed_point [OF a b c])
  moreover have "ease_particles 1 [1, 0, 0] [1, 4, 4] 0.5 [1, 2, 3] = [1, 2, 2.93]"
    by (simp add: ease_particles_def ease_particle_def lerp_def)
  ultimately show ?thesis using a b c by simp
qed

lemma scroll_handler_mapping:
  "scroll_handler d b sh ch = clamp01 (scrollTop_of d b / max 1 (sh - ch))
   \<and> 0 \<le> scroll_handler d b sh ch \<and> scroll_handler d b sh ch \<le> 1
   \<and> 1 \<le> scroll_max sh ch"
proof -
  have h: "scroll_handler d b sh ch = clamp01 (scrollTop_of d b / max 1 (sh - ch))"
    by (simp add: scroll_handler_def scroll_max_def)
  have r: "0 \<le> scroll_handler d b sh ch \<and> scroll_handler d b sh ch \<le> 1"
    unfolding h by (rule clamp01_range)
  have m: "1 \<le> scroll_max sh ch" by (simp add: scroll_max_def)
  from h r m show ?thesis by simp
qed

lemma scroll_handler_in_range:
  assumes "0 \<le> scrollTop_of d b" and "scrollTop_of d b \<le> max 1 (sh - ch)"
  shows "scroll_handler d b sh ch = scrollTop_of d b / max 1 (sh - ch)"
proof -
  have pos: "0 < max 1 (sh - ch)" by simp
  have "clamp01 (scrollTop_of d b / max 1 (sh - ch)) = scrollTop_of d b / max 1 (sh - ch)"
    using assms pos by (intro clamp01_id) (simp_all add: divide_le_eq)
  then show ?thesis by (simp add: scroll_handler_def scroll_max_def)
qed

lemma scroll_listener_guard:
  "(0 < sh - ih \<longrightarrow> scroll_listener sh ih y prev = y / (sh - ih))
   \<and> (\<not> 0 < sh - ih \<longrightarrow> scroll_listener sh ih y prev = prev)"
  by (simp add: scroll_listener_def)

text \<open>
  Claim C5 says that the scroll-to-progress mapper yields
  \<open>scrollTop / max 1 (scrollHeight - viewportHeight)\<close>, a value of the unit interval, with
  the divisor floored at 1. The handler of top-glb-loader.js does so for every offset
  between 0 and the scroll extent (\<open>scroll_handler_mapping\<close>, \<open>scroll_handler_in_range\<close>)
  and clamps the others. The listener of the main script has neither the floor nor the
  clamp. On a page that no longer scrolls (scroll height and viewport height both 1000,
  offset 0) it keeps the earlier progress 0.7, where the quotient \<open>0 / max 1 0\<close> is 0
  and the loader's handler returns 0. On an overscroll of \<open>-50\<close> with an extent of 1000
  it returns \<open>-0.05\<close>, outside the unit interval, where the loader's handler returns 0.
\<close>

theorem scroll_listener_no_floor_no_clamp:
  "scroll_listener 1000 1000 0 0.7 = 0.7
   \<and> (0::real) / max 1 (1000 - 1000) = 0
   \<and> scroll_handler 0 0 1000 1000 = 0
   \<and> scroll_listener 2000 1000 (-50) 0 = - 0.05
   \<and> \<not> (0 \<le> scroll_listener 2000 1000 (-50) 0)
   \<and> scroll_handler (-50) 0 2000 1000 = 0"
  by (simp add: scroll_listener_def scroll_handler_def scrollTop_of_def scroll_max_def
      clamp01_def)

lemma targetOpacity_range: "0 \<le> targetOpacity options got \<and> targetOpacity options got \<le> 1"
proof -
  have "0 \<le> smoothstep t \<and> smoothstep t \<le> 1" for t
  proof -
    let ?c = "clamp01 t"
    have c: "0 \<le> ?c" "?c \<le> 1" using clamp01_range [of t] by simp_all
    have "0 \<le> ?c * ?c * (3 - 2 * ?c)" using c by simp
    moreover have "1 - ?c * ?c * (3 - 2 * ?c) = (1 - ?c) * (1 - ?c) * (1 + 2 * ?c)"
      by (simp add: algebra_simps)
    moreover have "0 \<le> (1 - ?c) * (1 - ?c) * (1 + 2 * ?c)" using c by simp
    ultimately show ?thesis by (simp add: smoothstep_def Let_def)
  qed
  then show ?thesis by (simp add: targetOpacity_def Let_def)
qed

lemma updateTopGLB_opacity_range:
  assumes "0 \<le> opacity st" "opacity st \<le> 1" "0 \<le> delta * lerpSpeed_of options"
  shows "0 \<le> opacity (updateTopGLB options delta got st)
         \<and> opacity (updateTopGLB options delta got st) \<le> 1"
proof (cases "\<not> ready st \<or> object st = None")
  case True
  then show ?thesis using assms by (simp add: updateTopGLB_def)
next
  case False
  define k where "k = min 1 (delta * lerpSpeed_of options)"
  define g where "g = targetOpacity options got"
  have k: "0 \<le> k" "k \<le> 1" using assms(3) by (simp_all add: k_def)
  have g: "0 \<le> g" "g \<le> 1" using targetOpacity_range [of options got] by (simp_all add: g_def)
  have eq: "opacity (updateTopGLB options delta got st) = (1 - k) * opacity st + k * g"
    using False by (auto simp: updateTopGLB_def Let_def k_def g_def algebra_simps)
  have "0 \<le> (1 - k) * opacity st + k * g" using k g assms by simp
  moreover have "(1 - k) * opacity st + k * g \<le> (1 - k) * 1 + k * 1"
    using k g assms by (intro add_mono mult_left_mono) simp_all
  ultimately show ?thesis unfolding eq by simp
qed

lemma crystal_opacity_range:
  "0 \<le> 1 - animProgress s \<and> (0 \<le> s \<longrightarrow> 1 - animProgress s \<le> 1)"
  by (simp add: animProgress_def)

text \<open>
  Claim C3 says that every opacity produced by the two fades lies in the unit interval,
  whatever the scroll value. The overlay copy of the main script has only the lower
  clamp: with the thresholds of its one call, a scroll fraction of 1 (the page scrolled
  to its end) gives the canvas the opacity 9, and the fraction 1.5 gives \<open>149 / 11\<close>.
  The crystal's opacity has only the upper clamp of \<open>animProgress\<close>: a scroll fraction
  of \<open>-0.1\<close> gives 1.5. (The fade of top-glb-loader.js stays in range, as
  \<open>targetOpacity_range\<close> and \<open>updateTopGLB_opacity_range\<close> show.)
\<close>

theorem overlay_copy_opacity_exceeds_one:
  "overlay_opacity_main 0.01 0.12 1 = Num 9
   \<and> canvas_opacity (updateTopGLB_main 0.01 0.12 1 now (st\<lparr>model := Some m, renderer := Some r\<rparr>))
       = Some (Num 9)
   \<and> overlay_opacity_main 0.01 0.12 1.5 = Num (149 / 11)
   \<and> 1 - animProgress (- 0.1) = 1.5"
  by (simp add: overlay_opacity_main_def updateTopGLB_main_def js_div_def animProgress_def Let_def)

lemma header_canvas_zero_rect:
  assumes "enabled hc" "headerEl hc" "object glb \<noteq> None"
    and "rect_width rect = 0 \<or> rect_height rect = 0"
  shows "updateTopGLBHeaderCanvasLayout rect bsize glb hc
           = hc\<lparr>canvas := (canvas hc)\<lparr>display := ''none''\<rparr>\<rparr>"
  using assms by (auto simp: updateTopGLBHeaderCanvasLayout_def Let_def)

lemma header_canvas_recovers:
  assumes "enabled hc" "headerEl hc" "object glb \<noteq> None"
    and "0 < rect_width rect" "0 < rect_height rect"
  shows "display (canvas (updateTopGLBHeaderCanvasLayout rect bsize glb hc)) = ''block''
         \<and> pivot_scale (updateTopGLBHeaderCanvasLayout rect bsize glb hc)
             = layout_scale (fit hc) (fitAmount hc) rect bsize"
  using assms by (auto simp: updateTopGLBHeaderCanvasLayout_def Let_def)

text \<open>
  Claim C9 says that a header rectangle of zero width or height hides the overlay
  canvas and changes nothing else. The layout of top-glb-loader.js does so
  (\<open>header_canvas_zero_rect\<close>, \<open>header_canvas_recovers\<close>); the copy in the main script has
  no such test. On the state left by the loading sequence of the main script, a
  rectangle of width 0 and height 60 leaves the canvas displayed, resizes the renderer
  to 0 by 60, sets the camera aspect to 0 and rescales the model; a rectangle of width
  300 and height 0 sets the aspect to \<open>300 / 0 = Infinity\<close> and the scale of the model
  to 0.
\<close>

theorem layout_copy_zero_width_not_hidden:
  "updateTopGLBHeaderCanvasLayout_main
      \<lparr>rect_left = 0, rect_top = 0, rect_width = 0, rect_height = 60\<rparr>
      \<lparr>model = Some \<lparr>model_scale = Num 1, model_visible = True, model_rotation_y = 0\<rparr>,
       tcamera = Some \<lparr>fov = 60, aspect = Num 1, position_z = 5\<rparr>,
       renderer = Some (300, 150), theaderEl = True,
       canvas_display = '''', canvas_opacity = None,
       config_fit = ''height'', config_fitAmount = 0.55, headerSpin = 0.18\<rparr>
    = Inr \<lparr>model = Some \<lparr>model_scale = Num (33 * sqrt 3 / 10), model_visible = True,
                          model_rotation_y = 0\<rparr>,
           tcamera = Some \<lparr>fov = 60, aspect = Num 0, position_z = 5\<rparr>,
           renderer = Some (0, 60), theaderEl = True,
           canvas_display = '''', canvas_opacity = None,
           config_fit = ''height'', config_fitAmount = 0.55, headerSpin = 0.18\<rparr>
   \<and> updateTopGLBHeaderCanvasLayout_main
      \<lparr>rect_left = 0, rect_top = 0, rect_width = 300, rect_height = 0\<rparr>
      \<lparr>model = Some \<lparr>model_scale = Num 1, model_visible = True, model_rotation_y = 0\<rparr>,
       tcamera = Some \<lparr>fov = 60, aspect = Num 1, position_z = 5\<rparr>,
       renderer = Some (300, 150), theaderEl = True,
       canvas_display = '''', canvas_opacity = None,
       config_fit = ''height'', config_fitAmount = 0.55, headerSpin = 0.18\<rparr>
    = Inr \<lparr>model = Some \<lparr>model_scale = Num 0, model_visible = True, model_rotation_y = 0\<rparr>,
           tcamera = Some \<lparr>fov = 60, aspect = Infinity, position_z = 5\<rparr>,
           renderer = Some (300, 0), theaderEl = True,
           canvas_display = '''', canvas_opacity = None,
           config_fit = ''height'', config_fitAmount = 0.55, headerSpin = 0.18\<rparr>"
  by (simp add: updateTopGLBHeaderCanvasLayout_main_def Let_def js_div_def tan_30 field_simps)

end
